theory Spec2Isabelle
  imports
    Complex_Main
    "HOL-Library.AList"
    "HOL-Library.Char_ord"
    "HOL-Library.List_Lexorder"
    "HOL-Library.Product_Lexorder"
begin

section \<open>Values, errors and calendar dates\<close>

text \<open>
  The chart module \<^verbatim>\<open>visualization.py\<close> works on pandas data frames. A cell of a frame
  is one of the Python values the module tells apart: an integer, a float, a piece of
  text or a calendar date. Floats are idealised as rational numbers: rounding, NaN and
  infinities are not part of the model. Time of day and the range limits of pandas
  timestamps are not part of the model either: a date is a proleptic Gregorian
  year, month and day, as \<^verbatim>\<open>datetime.date\<close> has it.
\<close>

datatype date = Date (year: int) (month: int) (day: int)

datatype cell = IntV int | FloatV rat | StrV string | DateV date

datatype error =
    KeyError string      \<comment> \<open>a column that is not in the frame\<close>
  | ValueError           \<comment> \<open>a value that cannot be converted or formatted\<close>
  | TypeError            \<comment> \<open>a value of the wrong kind\<close>
  | IndexError           \<comment> \<open>position 0 or -1 of an empty sequence\<close>
  | LinAlgError          \<comment> \<open>the least-squares solver gives up\<close>
  | UnboundLocalError    \<comment> \<open>a local variable read before it was assigned\<close>

text \<open>Applying a conversion to every element; the first failure is the one raised.\<close>

fun traverse :: "('a \<Rightarrow> error + 'b) \<Rightarrow> 'a list \<Rightarrow> error + 'b list" where
  "traverse f [] = Inr []"
| "traverse f (x # xs) =
     (case f x of
        Inl e \<Rightarrow> Inl e
      | Inr y \<Rightarrow> (case traverse f xs of Inl e \<Rightarrow> Inl e | Inr ys \<Rightarrow> Inr (y # ys)))"

definition is_leap :: "int \<Rightarrow> bool" where
  "is_leap y \<longleftrightarrow> y mod 4 = 0 \<and> (y mod 100 \<noteq> 0 \<or> y mod 400 = 0)"

definition days_in_month :: "int \<Rightarrow> int \<Rightarrow> int" where
  "days_in_month y m =
     (if m = 2 then (if is_leap y then 29 else 28)
      else if m = 4 \<or> m = 6 \<or> m = 9 \<or> m = 11 then 30 else 31)"


text \<open>\<^verbatim>\<open>x.toordinal()\<close>: day 1 is 0001-01-01 (CPython's \<^verbatim>\<open>_ymd2ord\<close>).\<close>

definition days_before_year :: "int \<Rightarrow> int" where
  "days_before_year y = (let p = y - 1 in p * 365 + p div 4 - p div 100 + p div 400)"

definition days_before_month :: "int \<Rightarrow> int \<Rightarrow> int" where
  "days_before_month y m = sum_list (map (days_in_month y) [1..m - 1])"

definition toordinal :: "date \<Rightarrow> int" where
  "toordinal d = days_before_year (year d) + days_before_month (year d) (month d) + day d"

text \<open>Timestamps compare chronologically: by year, then month, then day.\<close>

definition date_le :: "date \<Rightarrow> date \<Rightarrow> bool" where
  "date_le a b \<longleftrightarrow>
     year a < year b \<or>
     (year a = year b \<and> (month a < month b \<or> (month a = month b \<and> day a \<le> day b)))"

subsection \<open>Month-end date ranges\<close>

text \<open>
  \<^verbatim>\<open>pd.date_range(..., freq='ME')\<close> yields month ends only. Months are counted from
  year 0: month \<open>i\<close> is month \<open>i mod 12 + 1\<close> of year \<open>i div 12\<close>.
\<close>

definition month_index :: "date \<Rightarrow> int" where
  "month_index d = year d * 12 + (month d - 1)"

definition month_end :: "int \<Rightarrow> date" where
  "month_end i = (let y = i div 12; m = i mod 12 + 1 in Date y m (days_in_month y m))"

definition is_month_end :: "date \<Rightarrow> bool" where
  "is_month_end d \<longleftrightarrow> day d = days_in_month (year d) (month d)"

text \<open>
  \<^verbatim>\<open>pd.date_range(start=s, periods=p, freq='ME')\<close>: the first \<open>p\<close> month ends on or
  after \<open>s\<close>. A negative number of periods is refused.
\<close>

definition date_range_periods :: "date \<Rightarrow> int \<Rightarrow> error + date list" where
  "date_range_periods s p =
     (if p < 0 then Inl ValueError
      else Inr (map (\<lambda>k. month_end (month_index s + k)) [0..p - 1]))"

text \<open>
  \<^verbatim>\<open>pd.date_range(start=s, end=e, freq='ME')\<close>: the month ends from \<open>s\<close> to \<open>e\<close>, both
  inclusive.
\<close>

definition date_range_end :: "date \<Rightarrow> date \<Rightarrow> date list" where
  "date_range_end s e =
     filter (\<lambda>d. date_le s d \<and> date_le d e) (map month_end [month_index s..month_index e])"

section \<open>The trend line: \<^verbatim>\<open>calculate_forecast\<close>\<close>

text \<open>
  \<^verbatim>\<open>np.polyfit(x, y, 1)\<close> in exact arithmetic: the least-squares line, returned as
  (slope, intercept). An empty \<open>x\<close> and vectors of different lengths are refused. When
  all abscissae coincide the system has rank one; numpy then warns and returns the
  minimum-norm solution of the column-scaled system, which is slope \<open>ybar / (2 c)\<close> and
  intercept \<open>ybar / 2\<close> for the common abscissa \<open>c\<close> (with \<open>c = 0\<close> the scaling divides
  by zero and the solver fails). The quantity \<open>n * sxx - sx\<^sup>2\<close> is zero exactly when all
  abscissae coincide.
\<close>

definition polyfit1 :: "int list \<Rightarrow> rat list \<Rightarrow> error + (rat \<times> rat)" where
  "polyfit1 xs ys =
     (if xs = [] then Inl TypeError
      else if length xs \<noteq> length ys then Inl TypeError
      else
        let n = of_nat (length xs) :: rat;
            sx = of_int (sum_list xs) :: rat;
            sy = sum_list ys;
            sxx = of_int (sum_list (map (\<lambda>x. x * x) xs)) :: rat;
            sxy = sum_list (map (\<lambda>(x, y). of_int x * y) (zip xs ys));
            den = n * sxx - sx * sx
        in if den \<noteq> 0 then
             let a = (n * sxy - sx * sy) / den in Inr (a, (sy - a * sx) / n)
           else if hd xs = 0 then Inl LinAlgError
           else Inr (sy / n / (2 * of_int (hd xs)), sy / n / 2))"

text \<open>\<^verbatim>\<open>np.poly1d(coefficients)\<close> applied to an ordinal.\<close>

definition polyval :: "rat \<times> rat \<Rightarrow> int \<Rightarrow> rat" where
  "polyval c x = fst c * of_int x + snd c"

text \<open>
  \<^verbatim>\<open>pd.to_datetime\<close> on a column. A date cell is itself; how pandas parses text and
  reads numbers as nanoseconds since the epoch is not modelled, so every other cell
  counts as rejected.
\<close>

fun to_datetime1 :: "cell \<Rightarrow> error + date" where
  "to_datetime1 (DateV d) = Inr d"
| "to_datetime1 _ = Inl ValueError"

definition to_datetime :: "cell list \<Rightarrow> error + date list" where
  "to_datetime = traverse to_datetime1"

text \<open>
  Conversion of one value to a float, as \<^verbatim>\<open>astype(float)\<close> and numpy's array
  arithmetic do it: integers and floats convert, a date is refused. How Python reads a
  float out of text is not modelled: a text cell stands for text that \<^verbatim>\<open>float()\<close>
  rejects, such as \<^verbatim>\<open>'abc'\<close>.
\<close>

fun as_float :: "cell \<Rightarrow> error + rat" where
  "as_float (IntV i) = Inr (of_int i)"
| "as_float (FloatV r) = Inr r"
| "as_float (StrV s) = Inl ValueError"
| "as_float (DateV d) = Inl TypeError"

definition astype_float :: "cell list \<Rightarrow> error + rat list" where
  "astype_float = traverse as_float"

text \<open>
  Lines 27 to 32: the ordinals of the dates, the prices as an array of floats, and
  the line fitted to them.
\<close>

definition fit_line :: "cell list \<Rightarrow> cell list \<Rightarrow> error + (rat \<times> rat)" where
  "fit_line dates prices =
     (case to_datetime dates of
        Inl e \<Rightarrow> Inl e
      | Inr ds \<Rightarrow>
         (case astype_float prices of
            Inl e \<Rightarrow> Inl e
          | Inr y \<Rightarrow> polyfit1 (map toordinal ds) y))"

text \<open>
  \<^verbatim>\<open>calculate_forecast(dates, prices, years_to_forecast)\<close>. After the fit,
  \<^verbatim>\<open>dates.iloc[-1]\<close> and \<^verbatim>\<open>dates.iloc[0]\<close> are read (the fit has already refused an
  empty column), the month ends up to \<open>years_to_forecast * 12 + 1\<close> periods from the
  last date are generated, and the line is evaluated at every month end from the first
  date to the last generated one.
\<close>

definition calculate_forecast ::
  "cell list \<Rightarrow> cell list \<Rightarrow> int \<Rightarrow> error + (date list \<times> rat list)" where
  "calculate_forecast dates prices years_to_forecast =
     (case fit_line dates prices of
        Inl e \<Rightarrow> Inl e
      | Inr polynomial \<Rightarrow>
         (case to_datetime dates of
            Inl e \<Rightarrow> Inl e
          | Inr ds \<Rightarrow>
             (if ds = [] then Inl IndexError
              else
                (case date_range_periods (last ds) (years_to_forecast * 12 + 1) of
                   Inl e \<Rightarrow> Inl e
                 | Inr future_dates \<Rightarrow>
                    (if future_dates = [] then Inl IndexError
                     else
                       let all_dates = date_range_end (hd ds) (last future_dates);
                           all_X = map toordinal all_dates
                       in Inr (all_dates, map (polyval polynomial) all_X))))))"


section \<open>Data frames\<close>

text \<open>
  A data frame is its columns in order, each a name and the cells of that column; all
  columns of a frame have the same length. Objects live in a store, and a reference to
  a frame is its address there: \<^verbatim>\<open>update_plot\<close> writes into the caller's frame and
  keeps the reference.
\<close>

type_synonym dataframe = "(string \<times> cell list) list"

definition wf_frame :: "dataframe \<Rightarrow> bool" where
  "wf_frame df \<longleftrightarrow>
     distinct (map fst df) \<and> (\<forall>c \<in> set df. \<forall>c' \<in> set df. length (snd c) = length (snd c'))"

definition columns :: "dataframe \<Rightarrow> string list" where
  "columns df = map fst df"

definition row_count :: "dataframe \<Rightarrow> nat" where
  "row_count df = (case df of [] \<Rightarrow> 0 | (_, col) # _ \<Rightarrow> length col)"

text \<open>\<^verbatim>\<open>data.empty\<close>: no columns or no rows.\<close>

definition empty_df :: "dataframe \<Rightarrow> bool" where
  "empty_df df \<longleftrightarrow> df = [] \<or> row_count df = 0"

text \<open>\<^verbatim>\<open>data[c]\<close> and \<^verbatim>\<open>data[c] = v\<close>.\<close>

definition getcol :: "dataframe \<Rightarrow> string \<Rightarrow> error + cell list" where
  "getcol df c = (case map_of df c of None \<Rightarrow> Inl (KeyError c) | Some col \<Rightarrow> Inr col)"

definition setcol :: "dataframe \<Rightarrow> string \<Rightarrow> cell list \<Rightarrow> dataframe" where
  "setcol df c col = AList.update c col df"

text \<open>\<^verbatim>\<open>series.iloc[0]\<close>.\<close>

definition iloc0 :: "cell list \<Rightarrow> error + cell" where
  "iloc0 col = (case col of [] \<Rightarrow> Inl IndexError | v # _ \<Rightarrow> Inr v)"

text \<open>
  The format \<^verbatim>\<open>{v:.0f}\<close>: numbers accept it, text refuses the format code, and a date
  hands the format to \<^verbatim>\<open>strftime\<close>, which finds no directive in it.
\<close>

fun format_0f :: "cell \<Rightarrow> error + unit" where
  "format_0f (StrV s) = Inl ValueError"
| "format_0f _ = Inr ()"

subsection \<open>Grouping\<close>

text \<open>
  \<^verbatim>\<open>data.groupby(cols)\<close> yields one sub-frame per distinct combination of the key
  columns, in ascending order of the key. Keys are compared as Python compares the
  values: numbers by value (so \<open>1\<close> and \<open>1.0\<close> are the same key), text by code point;
  in a column of mixed kinds pandas puts numbers before text. The key shown for a group
  is the one of its first row.
\<close>

fun cell_key :: "cell \<Rightarrow> nat \<times> rat \<times> string" where
  "cell_key (IntV i) = (0, of_int i, [])"
| "cell_key (FloatV r) = (0, r, [])"
| "cell_key (StrV s) = (1, 0, s)"
| "cell_key (DateV d) = (2, of_int (toordinal d), [])"

definition take_rows :: "nat list \<Rightarrow> dataframe \<Rightarrow> dataframe" where
  "take_rows idxs df = map (\<lambda>(c, col). (c, map (\<lambda>i. col ! i) idxs)) df"

definition row_keys :: "cell list list \<Rightarrow> nat \<Rightarrow> cell list list" where
  "row_keys kcols n = map (\<lambda>i. map (\<lambda>col. col ! i) kcols) [0..<n]"

definition group_keys :: "cell list list \<Rightarrow> (nat \<times> rat \<times> string) list list" where
  "group_keys keys = sort (remdups (map (map cell_key) keys))"

definition groupby :: "dataframe \<Rightarrow> string list \<Rightarrow> error + (cell list \<times> dataframe) list" where
  "groupby df cols =
     (case traverse (getcol df) cols of
        Inl e \<Rightarrow> Inl e
      | Inr kcols \<Rightarrow>
          let n = row_count df;
              keys = row_keys kcols n
          in Inr (map (\<lambda>u.
                    let idxs = filter (\<lambda>i. map cell_key (keys ! i) = u) [0..<n]
                    in (keys ! hd idxs, take_rows idxs df))
                  (group_keys keys)))"

section \<open>The drawing surface\<close>

text \<open>
  Formatted text is kept as its pieces: literal text, \<^verbatim>\<open>str(v)\<close> of a cell,
  \<^verbatim>\<open>{v:.0f}\<close> of a cell and \<^verbatim>\<open>${x:,.0f}\<close> of a number.
\<close>

datatype frag = Text string | Shown cell | Fixed0 cell | Dollars rat

datatype colour = Cycle | Accent | Red

datatype layout = Unset | BottomMargin | Tight

record plot_line =
  line_label :: "frag list"
  xdata :: "cell list"
  ydata :: "cell list"
  dashed :: bool
  line_colour :: colour
  alpha :: rat

text \<open>
  The axes, the canvas and the figure. \<^verbatim>\<open>ax.clear()\<close> empties the axes; the figure's
  layout and the count of \<^verbatim>\<open>canvas.draw()\<close> calls are not part of the axes.
\<close>

record surface =
  lines :: "plot_line list"
  texts :: "(string \<times> colour) list"
  title :: "frag list"
  xlabel :: string
  ylabel :: string
  date_ticks :: bool
  currency_ticks :: bool
  grid :: bool
  legend :: bool
  fig_layout :: layout
  draws :: nat

definition ax_clear :: "surface \<Rightarrow> surface" where
  "ax_clear s = s\<lparr>lines := [], texts := [], title := [], xlabel := [], ylabel := [],
                   date_ticks := False, currency_ticks := False, grid := False,
                   legend := False\<rparr>"

definition ax_plot :: "plot_line \<Rightarrow> surface \<Rightarrow> surface" where
  "ax_plot l s = s\<lparr>lines := lines s @ [l]\<rparr>"

definition ax_text :: "string \<Rightarrow> colour \<Rightarrow> surface \<Rightarrow> surface" where
  "ax_text msg c s = s\<lparr>texts := texts s @ [(msg, c)]\<rparr>"

definition canvas_draw :: "surface \<Rightarrow> surface" where
  "canvas_draw s = s\<lparr>draws := Suc (draws s)\<rparr>"

section \<open>The chart manager\<close>

text \<open>
  The fields of a \<^verbatim>\<open>ChartManager\<close> together with the store of frames. The attribute
  \<^verbatim>\<open>current_data\<close> does not exist until \<^verbatim>\<open>update_plot\<close> assigns it; from then on it
  is the address of a frame. The axes, canvas and figure are one surface; the accent
  colour is the constant \<^const>\<open>Accent\<close>.
\<close>

record world =
  show_forecast :: bool
  current_data :: "nat option"
  surf :: surface
  heap :: "nat \<Rightarrow> dataframe"

text \<open>\<^verbatim>\<open>__init__\<close> on a fresh surface.\<close>

definition fresh_surface :: surface where
  "fresh_surface = \<lparr>lines = [], texts = [], title = [], xlabel = [], ylabel = [],
                     date_ticks = False, currency_ticks = False, grid = False,
                     legend = False, fig_layout = Unset, draws = 0\<rparr>"

definition init :: "(nat \<Rightarrow> dataframe) \<Rightarrow> world" where
  "init h = \<lparr>show_forecast = False, current_data = None, surf = fresh_surface, heap = h\<rparr>"

definition setup_initial_plot :: "world \<Rightarrow> error option \<times> world" where
  "setup_initial_plot w =
     (None, w\<lparr>surf := canvas_draw
                 (ax_text ''Select filters and click Update Viz'' Cycle
                    ((surf w)\<lparr>title := [Text ''Housing Prices Over Time''],
                              xlabel := ''Date'', ylabel := ''Price ($)''\<rparr>))\<rparr>)"

definition show_error :: "world \<Rightarrow> string \<Rightarrow> error option \<times> world" where
  "show_error w message =
     (None, w\<lparr>surf := canvas_draw (ax_text message Red (ax_clear (surf w)))\<rparr>)"

definition clear_plot :: "world \<Rightarrow> error option \<times> world" where
  "clear_plot w = setup_initial_plot (w\<lparr>surf := ax_clear (surf w)\<rparr>)"

subsection \<open>\<^verbatim>\<open>update_plot\<close>\<close>

text \<open>Lines 77 to 83.\<close>

definition location_cols :: "dataframe \<Rightarrow> string list" where
  "location_cols data =
     (if ''stateabbr'' \<in> set (columns data) then
        ''stateabbr'' #
          (if ''city'' \<in> set (columns data) then
             ''city'' # (if ''zipcode'' \<in> set (columns data) then [''zipcode''] else [])
           else [])
      else [])"

text \<open>
  Lines 85 to 93. Every branch formats the first \<^verbatim>\<open>included_zipcodes\<close> value into
  \<^verbatim>\<open>avg_desc\<close>; the result is the pair of \<^verbatim>\<open>main_title\<close> and \<^verbatim>\<open>avg_desc\<close>.
\<close>

definition first_value :: "dataframe \<Rightarrow> string \<Rightarrow> error + cell" where
  "first_value data c = (case getcol data c of Inl e \<Rightarrow> Inl e | Inr col \<Rightarrow> iloc0 col)"

definition avg_desc :: "dataframe \<Rightarrow> error + frag list" where
  "avg_desc data =
     (case first_value data ''included_zipcodes'' of
        Inl e \<Rightarrow> Inl e
      | Inr v \<Rightarrow>
         (case format_0f v of
            Inl e \<Rightarrow> Inl e
          | Inr _ \<Rightarrow> Inr [Text ''(Average across '', Fixed0 v, Text '' zipcodes)'']))"

definition titles :: "dataframe \<Rightarrow> error + (frag list \<times> frag list)" where
  "titles data =
     (if ''city'' \<in> set (columns data) then
        (case first_value data ''city'' of
           Inl e \<Rightarrow> Inl e
         | Inr c \<Rightarrow>
            (case first_value data ''stateabbr'' of
               Inl e \<Rightarrow> Inl e
             | Inr s \<Rightarrow>
                (case avg_desc data of
                   Inl e \<Rightarrow> Inl e
                 | Inr d \<Rightarrow> Inr ([Text ''Housing Prices in '', Shown c, Text '', '', Shown s], d))))
      else if ''stateabbr'' \<in> set (columns data) then
        (case first_value data ''stateabbr'' of
           Inl e \<Rightarrow> Inl e
         | Inr s \<Rightarrow>
            (case avg_desc data of
               Inl e \<Rightarrow> Inl e
             | Inr d \<Rightarrow> Inr ([Text ''Housing Prices in '', Shown s], d)))
      else
        (case avg_desc data of
           Inl e \<Rightarrow> Inl e
         | Inr d \<Rightarrow> Inr ([Text ''Housing Prices in United States''], d)))"

text \<open>
  Lines 104 to 107: the label of a group. A key of several values is joined with commas;
  a key of one value gives the same text whether pandas hands it over as a tuple or bare.
\<close>

fun join_label :: "cell list \<Rightarrow> frag list" where
  "join_label [] = []"
| "join_label [v] = [Shown v]"
| "join_label (v # vs) = Shown v # Text '', '' # join_label vs"

definition actual_line :: "frag list \<Rightarrow> colour \<Rightarrow> cell list \<Rightarrow> cell list \<Rightarrow> plot_line" where
  "actual_line lbl c xs ys =
     \<lparr>line_label = lbl, xdata = xs, ydata = ys, dashed = False, line_colour = c, alpha = 1\<rparr>"

definition forecast_line :: "frag list \<Rightarrow> colour \<Rightarrow> date list \<Rightarrow> rat list \<Rightarrow> plot_line" where
  "forecast_line lbl c all_dates forecast_values =
     \<lparr>line_label = lbl, xdata = map DateV all_dates, ydata = map FloatV forecast_values,
      dashed = True, line_colour = c, alpha = 7 / 10\<rparr>"

text \<open>
  Lines 103 to 116: the loop over the groups. It carries the axes and the local variable
  \<^verbatim>\<open>forecast_values\<close>, which stays unassigned until a forecast has been computed. A
  failure leaves the lines drawn so far on the axes.
\<close>

fun plot_groups ::
  "bool \<Rightarrow> (cell list \<times> dataframe) list \<Rightarrow> surface \<Rightarrow> rat list option \<Rightarrow>
   error option \<times> surface \<times> rat list option" where
  "plot_groups sf [] s fv = (None, s, fv)"
| "plot_groups sf ((location_values, grp) # rest) s fv =
     (case getcol grp ''date'' of
        Inl e \<Rightarrow> (Some e, s, fv)
      | Inr gdate \<Rightarrow>
         (case getcol grp ''price'' of
            Inl e \<Rightarrow> (Some e, s, fv)
          | Inr gprice \<Rightarrow>
             let label = join_label location_values;
                 s1 = ax_plot (actual_line (Text ''Actual - '' # label) Cycle gdate gprice) s
             in if sf then
                  (case calculate_forecast gdate gprice 6 of
                     Inl e \<Rightarrow> (Some e, s1, fv)
                   | Inr (all_dates, forecast_values) \<Rightarrow>
                       plot_groups sf rest
                         (ax_plot (forecast_line
                                     ([Text ''Forecast - ''] @ label @ [Text '' (6 years)''])
                                     Cycle all_dates forecast_values) s1)
                         (Some forecast_values))
                else plot_groups sf rest s1 fv))"

text \<open>Lines 97 to 126: the series, grouped or not. Also returns \<^verbatim>\<open>has_multiple_lines\<close>.\<close>

definition plot_series ::
  "bool \<Rightarrow> dataframe \<Rightarrow> surface \<Rightarrow> error option \<times> surface \<times> rat list option \<times> bool" where
  "plot_series sf data s =
     (if location_cols data \<noteq> [] then
        (case groupby data (location_cols data) of
           Inl e \<Rightarrow> (Some e, s, None, False)
         | Inr locations \<Rightarrow>
            (case plot_groups sf locations s None of
               (r, s', fv) \<Rightarrow> (r, s', fv, 1 < length locations)))
      else
        (case getcol data ''date'' of
           Inl e \<Rightarrow> (Some e, s, None, False)
         | Inr ddate \<Rightarrow>
            (case getcol data ''price'' of
               Inl e \<Rightarrow> (Some e, s, None, False)
             | Inr dprice \<Rightarrow>
                let s1 = ax_plot (actual_line [Text ''Actual Data''] Accent ddate dprice) s
                in if sf then
                     (case calculate_forecast ddate dprice 6 of
                        Inl e \<Rightarrow> (Some e, s1, None, False)
                      | Inr (all_dates, forecast_values) \<Rightarrow>
                          (None,
                           ax_plot (forecast_line [Text ''Forecast (6 years)''] Red
                                      all_dates forecast_values) s1,
                           Some forecast_values, False))
                   else (None, s1, None, False))))"

text \<open>Lines 128 to 141: title, axis labels, tick formats and grid.\<close>

definition axis_cosmetics :: "frag list \<Rightarrow> surface \<Rightarrow> surface" where
  "axis_cosmetics t s =
     s\<lparr>title := t, xlabel := ''Date'', ylabel := ''Average Home Value ($)'',
       date_ticks := True, currency_ticks := True, grid := True\<rparr>"

text \<open>Lines 144 to 149: mean, minimum and maximum of the price column.\<close>

definition mean :: "rat list \<Rightarrow> rat" where
  "mean ps = sum_list ps / of_nat (length ps)"

definition series_min :: "rat list \<Rightarrow> rat" where
  "series_min ps = fold min (tl ps) (hd ps)"

definition series_max :: "rat list \<Rightarrow> rat" where
  "series_max ps = fold max (tl ps) (hd ps)"

definition stats_text :: "rat list \<Rightarrow> frag list" where
  "stats_text ps =
     [Text (CHR 0x0A # ''Avg: ''), Dollars (mean ps),
      Text '' | Min: '', Dollars (series_min ps),
      Text '' | Max: '', Dollars (series_max ps)]"

definition forecast_text :: "rat list option \<Rightarrow> error + frag list" where
  "forecast_text fv =
     (case fv of
        None \<Rightarrow> Inl UnboundLocalError
      | Some forecast_values \<Rightarrow>
          if forecast_values = [] then Inl IndexError
          else Inr [Text (CHR 0x0A # ''Forecasted Value (6 years): ''),
                    Dollars (last forecast_values)])"

definition no_data_message :: string where
  "no_data_message =
     ''No data found for the given criteria'' @ CHR 0x0A # ''Try different search parameters''"

text \<open>Lines 154 to 158: legend and bottom margin, or the tight layout.\<close>

definition layout_plot :: "bool \<Rightarrow> bool \<Rightarrow> surface \<Rightarrow> surface" where
  "layout_plot sf has_multiple_lines s =
     (if has_multiple_lines \<or> sf then s\<lparr>legend := True, fig_layout := BottomMargin\<rparr>
      else s\<lparr>fig_layout := Tight\<rparr>)"

text \<open>
  Lines 128 to 158 and the final \<^verbatim>\<open>canvas.draw()\<close>, from the axes the series were
  drawn on, the value of \<^verbatim>\<open>forecast_values\<close> and \<^verbatim>\<open>has_multiple_lines\<close>.
\<close>

definition finish_plot ::
  "bool \<Rightarrow> frag list \<Rightarrow> rat list \<Rightarrow> surface \<Rightarrow> rat list option \<Rightarrow> bool \<Rightarrow>
   error option \<times> surface" where
  "finish_plot sf t ps s fv has_multiple_lines =
     (case (if sf then forecast_text fv else Inr []) of
        Inl e \<Rightarrow> (Some e, axis_cosmetics t s)
      | Inr ft \<Rightarrow>
          (None, canvas_draw (layout_plot sf has_multiple_lines
                                ((axis_cosmetics t s)\<lparr>title := t @ stats_text ps @ ft\<rparr>))))"

text \<open>
  Lines 77 to 158 on the frame whose price column has been converted: \<open>ps\<close> are the
  converted prices.
\<close>

definition render :: "bool \<Rightarrow> dataframe \<Rightarrow> rat list \<Rightarrow> surface \<Rightarrow> error option \<times> surface" where
  "render sf df ps s =
     (case titles df of
        Inl e \<Rightarrow> (Some e, s)
      | Inr (main_title, _) \<Rightarrow>
         (case plot_series sf df s of
            (Some e, s', _) \<Rightarrow> (Some e, s')
          | (None, s', fv, has_multiple_lines) \<Rightarrow>
              finish_plot sf (Text [CHR 0x0A] # main_title) ps s' fv has_multiple_lines))"

text \<open>
  \<^verbatim>\<open>update_plot(data)\<close>. The argument is \<^verbatim>\<open>None\<close> or the address of a frame. The
  result is the exception raised, if any, and the state left behind: everything done
  before a failure stays done, and the final \<^verbatim>\<open>canvas.draw()\<close> is not reached.
\<close>

definition update_plot :: "world \<Rightarrow> nat option \<Rightarrow> error option \<times> world" where
  "update_plot w data =
     (if data \<noteq> None \<and> \<not> empty_df (heap w (the data)) then
        let a = the data;
            w1 = w\<lparr>current_data := Some a, surf := ax_clear (surf w)\<rparr>
        in
        (case getcol (heap w a) ''price'' of
           Inl e \<Rightarrow> (Some e, w1)
         | Inr price \<Rightarrow>
            (case astype_float price of
               Inl e \<Rightarrow> (Some e, w1)
             | Inr ps \<Rightarrow>
                let df = setcol (heap w a) ''price'' (map FloatV ps);
                    w2 = w1\<lparr>heap := (heap w)(a := df)\<rparr>
                in (case render (show_forecast w) df ps (surf w2) of
                      (r, s) \<Rightarrow> (r, w2\<lparr>surf := s\<rparr>))))
      else
        (None, w\<lparr>surf := canvas_draw (ax_text no_data_message Cycle (ax_clear (surf w)))\<rparr>))"

text \<open>\<^verbatim>\<open>toggle_trend_line()\<close>.\<close>

definition toggle_trend_line :: "world \<Rightarrow> error option \<times> world" where
  "toggle_trend_line w =
     (let w' = w\<lparr>show_forecast := \<not> show_forecast w\<rparr>
      in case current_data w' of
           None \<Rightarrow> (None, w')
         | Some a \<Rightarrow> update_plot w' (current_data w'))"

subsection \<open>Sequences of operations\<close>

text \<open>
  The host application calls the public operations one after the other; an exception
  ends the call that raised it and the next call finds the state as it was left.
\<close>

datatype op = Toggle | Update "nat option" | Setup | ShowError string | ClearPlot



subsection \<open>What the retained frame is like\<close>

text \<open>
  The two properties asked of the frame that \<^verbatim>\<open>current_data\<close> refers to: it has rows
  and columns, and its price column converts to floats. An update stops at the
  conversion in line 75 when the price column is missing or does not convert.
\<close>

definition price_numeric :: "dataframe \<Rightarrow> bool" where
  "price_numeric df \<longleftrightarrow>
     (case getcol df ''price'' of Inl e \<Rightarrow> False | Inr price \<Rightarrow> \<not> isl (astype_float price))"






text \<open>A store in which every address holds the frame without columns.\<close>

definition no_frames :: "nat \<Rightarrow> dataframe" where
  "no_frames a = []"

subsection \<open>What is on the axes\<close>





subsection \<open>The input contract\<close>



subsection \<open>Sample frames\<close>

text \<open>
  Small frames on which the statements below are tried: one series without location
  columns; two states whose rows arrive with the later key first; a price that is not a
  number; a city column without a state column; and a frame without the
  \<^verbatim>\<open>included_zipcodes\<close> column.
\<close>

definition plain_frame :: dataframe where
  "plain_frame =
     [(''date'', [DateV (Date 2020 1 15), DateV (Date 2020 2 15)]),
      (''price'', [IntV 100, IntV 110]),
      (''included_zipcodes'', [IntV 5, IntV 5])]"

definition states_frame :: dataframe where
  "states_frame =
     [(''date'', [DateV (Date 2020 1 15), DateV (Date 2020 1 15),
                  DateV (Date 2020 2 15), DateV (Date 2020 2 15)]),
      (''price'', [IntV 100, IntV 200, IntV 110, IntV 230]),
      (''stateabbr'', [StrV ''TX'', StrV ''CA'', StrV ''TX'', StrV ''CA'']),
      (''included_zipcodes'', [IntV 5, IntV 5, IntV 5, IntV 5])]"


definition city_only_frame :: dataframe where
  "city_only_frame =
     [(''date'', [DateV (Date 2020 1 15), DateV (Date 2020 2 15)]),
      (''price'', [IntV 100, IntV 110]),
      (''city'', [StrV ''Tempe'', StrV ''Tempe'']),
      (''included_zipcodes'', [IntV 5, IntV 5])]"

definition uncounted_frame :: dataframe where
  "uncounted_frame =
     [(''date'', [DateV (Date 2020 1 15), DateV (Date 2020 2 15)]),
      (''price'', [IntV 100, IntV 110])]"

section \<open>Calendar and least-squares facts\<close>






























section \<open>Frames and the stages of \<^verbatim>\<open>update_plot\<close>\<close>

lemma traverse_length: "traverse f xs = Inr ys \<Longrightarrow> length ys = length xs"
  by (induction xs arbitrary: ys) (auto split: sum.splits)

lemma getcol_setcol_same: "getcol (setcol df c col) c = Inr col"
  by (simp add: getcol_def setcol_def update_conv')


lemma getcol_Inr_iff: "(\<exists>col. getcol df c = Inr col) \<longleftrightarrow> c \<in> set (columns df)"
  by (auto simp: getcol_def columns_def map_of_eq_None_iff split: option.splits)
     (metis map_of_eq_None_iff not_Some_eq image_set)

lemma getcol_KeyError: "c \<notin> set (columns df) \<Longrightarrow> getcol df c = Inl (KeyError c)"
  by (simp add: getcol_def columns_def map_of_eq_None_iff[THEN iffD2])

lemma columns_setcol:
  "c \<in> set (columns df) \<Longrightarrow> columns (setcol df c col) = columns df"
  unfolding columns_def setcol_def
  by (induction df) auto

lemma row_count_setcol:
  assumes "getcol df c = Inr old" "length col = length old"
  shows "row_count (setcol df c col) = row_count df"
  using assms unfolding row_count_def setcol_def getcol_def
  by (cases df) (auto split: option.splits if_splits)

lemma empty_df_setcol:
  assumes "getcol df c = Inr old" "length col = length old"
  shows "empty_df (setcol df c col) = empty_df df"
  using row_count_setcol[OF assms] assms(1)
  by (cases df) (auto simp: empty_df_def setcol_def getcol_def)

lemma update_plot_no_data_eq:
  assumes "data = None \<or> empty_df (heap w (the data))"
  shows "update_plot w data =
    (None, w\<lparr>surf := canvas_draw (ax_text no_data_message Cycle (ax_clear (surf w)))\<rparr>)"
  using assms by (auto simp: update_plot_def)

lemma update_plot_no_price:
  assumes "\<not> empty_df (heap w a)" "getcol (heap w a) ''price'' = Inl e"
  shows "update_plot w (Some a) = (Some e, w\<lparr>current_data := Some a, surf := ax_clear (surf w)\<rparr>)"
  using assms by (simp add: update_plot_def)

lemma update_plot_bad_price:
  assumes "\<not> empty_df (heap w a)" "getcol (heap w a) ''price'' = Inr price"
    "astype_float price = Inl e"
  shows "update_plot w (Some a) = (Some e, w\<lparr>current_data := Some a, surf := ax_clear (surf w)\<rparr>)"
  using assms by (simp add: update_plot_def)

lemma update_plot_render:
  assumes "\<not> empty_df (heap w a)" "getcol (heap w a) ''price'' = Inr price"
    "astype_float price = Inr ps"
  shows "update_plot w (Some a) =
     (fst (render (show_forecast w) (setcol (heap w a) ''price'' (map FloatV ps)) ps
             (ax_clear (surf w))),
      w\<lparr>current_data := Some a,
        surf := snd (render (show_forecast w) (setcol (heap w a) ''price'' (map FloatV ps)) ps
                       (ax_clear (surf w))),
        heap := (heap w)(a := setcol (heap w a) ''price'' (map FloatV ps))\<rparr>)"
  using assms by (simp add: update_plot_def Let_def split: prod.splits)


























lemma update_plot_cases:
  obtains (no_data) "data = None \<or> empty_df (heap w (the data))"
  | (no_price) a e where "data = Some a" "\<not> empty_df (heap w a)"
      "getcol (heap w a) ''price'' = Inl e"
  | (bad_price) a price e where "data = Some a" "\<not> empty_df (heap w a)"
      "getcol (heap w a) ''price'' = Inr price" "astype_float price = Inl e"
  | (rendered) a price ps where "data = Some a" "\<not> empty_df (heap w a)"
      "getcol (heap w a) ''price'' = Inr price" "astype_float price = Inr ps"
proof (cases "data = None \<or> empty_df (heap w (the data))")
  case True then show ?thesis by (rule no_data)
next
  case False
  then obtain a where a: "data = Some a" "\<not> empty_df (heap w a)" by auto
  show ?thesis
  proof (cases "getcol (heap w a) ''price''")
    case (Inl e) with a show ?thesis by (rule no_price)
  next
    case (Inr price)
    show ?thesis
    proof (cases "astype_float price")
      case (Inl e) with a Inr show ?thesis by (rule bad_price)
    next
      case Inr2: (Inr ps) with a Inr show ?thesis by (rule rendered)
    qed
  qed
qed

lemma update_plot_show_forecast:
  "show_forecast (snd (update_plot w data)) = show_forecast w"
  by (cases rule: update_plot_cases[of data w])
     (simp_all add: update_plot_no_data_eq update_plot_no_price update_plot_bad_price
                    update_plot_render)

lemma update_plot_current_data:
  "\<not> empty_df (heap w a) \<Longrightarrow> current_data (snd (update_plot w (Some a))) = Some a"
  by (cases rule: update_plot_cases[of "Some a" w])
     (simp_all add: update_plot_no_price update_plot_bad_price update_plot_render)

lemma update_plot_heap:
  assumes "\<not> empty_df (heap w a)" "getcol (heap w a) ''price'' = Inr price"
    "astype_float price = Inr ps"
  shows "heap (snd (update_plot w (Some a))) =
           (heap w)(a := setcol (heap w a) ''price'' (map FloatV ps))"
  by (simp add: update_plot_render[OF assms])







lemma wf_column_nonempty:
  assumes "wf_frame df" "\<not> empty_df df" "getcol df c = Inr col"
  shows "col \<noteq> []"
proof -
  from assms(2) obtain k col0 rest where df: "df = (k, col0) # rest" and n: "col0 \<noteq> []"
    by (cases df) (auto simp: empty_df_def row_count_def)
  from assms(3) have "(c, col) \<in> set df"
    by (auto simp: getcol_def split: option.splits dest: map_of_SomeD)
  with assms(1) df have "length col = length col0"
    unfolding wf_frame_def by fastforce
  with n show ?thesis by auto
qed

lemma set_setcol_subset: "set (setcol df c col) \<subseteq> insert (c, col) (set df)"
  unfolding setcol_def by (induction df) auto

lemma wf_frame_setcol:
  assumes "wf_frame df" "getcol df c = Inr old" "length col = length old"
  shows "wf_frame (setcol df c col)"
proof -
  have d: "distinct (map fst (setcol df c col))"
    using assms(1) by (simp add: wf_frame_def setcol_def distinct_update)
  have "\<And>x. x \<in> set (setcol df c col) \<Longrightarrow> length (snd x) = length old"
  proof -
    fix x assume "x \<in> set (setcol df c col)"
    then have "x \<in> set df \<or> x = (c, col)"
      using set_setcol_subset[of df c col] by auto
    moreover have "(c, old) \<in> set df"
      using assms(2) by (auto simp: getcol_def split: option.splits dest: map_of_SomeD)
    ultimately show "length (snd x) = length old"
      using assms(1,3) unfolding wf_frame_def by fastforce
  qed
  with d show ?thesis unfolding wf_frame_def by simp
qed

lemma first_value_wf:
  assumes "wf_frame df" "\<not> empty_df df" "c \<in> set (columns df)"
  shows "\<exists>v. first_value df c = Inr v"
proof -
  from assms(3) obtain col where c: "getcol df c = Inr col"
    using getcol_Inr_iff by blast
  from wf_column_nonempty[OF assms(1,2) c] c show ?thesis
    by (cases col) (simp_all add: first_value_def iloc0_def)
qed

lemma first_value_missing:
  "c \<notin> set (columns df) \<Longrightarrow> first_value df c = Inl (KeyError c)"
  by (simp add: first_value_def getcol_KeyError)

lemma avg_desc_missing:
  "''included_zipcodes'' \<notin> set (columns df) \<Longrightarrow>
   avg_desc df = Inl (KeyError ''included_zipcodes'')"
  by (simp add: avg_desc_def first_value_missing)

lemma titles_without_count:
  assumes "''included_zipcodes'' \<notin> set (columns df)"
  shows "isl (titles df)"
  by (simp add: titles_def avg_desc_missing[OF assms] split: sum.splits)

lemma titles_without_count_wf:
  assumes "''included_zipcodes'' \<notin> set (columns df)" "wf_frame df" "\<not> empty_df df"
    "''city'' \<in> set (columns df) \<longrightarrow> ''stateabbr'' \<in> set (columns df)"
  shows "titles df = Inl (KeyError ''included_zipcodes'')"
proof -
  have c: "''city'' \<in> set (columns df) \<Longrightarrow> \<exists>v. first_value df ''city'' = Inr v"
    and s: "''stateabbr'' \<in> set (columns df) \<Longrightarrow> \<exists>v. first_value df ''stateabbr'' = Inr v"
    using first_value_wf[OF assms(2,3)] by blast+
  show ?thesis
    using c s assms(4) by (auto simp: titles_def avg_desc_missing[OF assms(1)])
qed

lemma titles_city_without_state:
  assumes "''city'' \<in> set (columns df)" "''stateabbr'' \<notin> set (columns df)"
  shows "isl (titles df)"
  using assms by (simp add: titles_def first_value_missing split: sum.splits)

lemma titles_city_without_state_wf:
  assumes "''city'' \<in> set (columns df)" "''stateabbr'' \<notin> set (columns df)"
    "wf_frame df" "\<not> empty_df df"
  shows "titles df = Inl (KeyError ''stateabbr'')"
  using first_value_wf[OF assms(3,4,1)] assms(1,2)
  by (auto simp: titles_def first_value_missing)

lemma render_titles_fail: "titles df = Inl e \<Longrightarrow> fst (render sf df ps s) = Some e"
  by (simp add: render_def)

lemma render_titles_isl: "isl (titles df) \<Longrightarrow> fst (render sf df ps s) \<noteq> None"
  by (cases "titles df") (simp_all add: render_def)

lemma price_numeric_conv:
  "price_numeric df \<longleftrightarrow> (\<exists>price ps. getcol df ''price'' = Inr price \<and> astype_float price = Inr ps)"
  by (cases "getcol df ''price''")
     (auto simp: price_numeric_def isl_def split: sum.splits, metis sum.exhaust_sel isl_def)

lemma update_plot_titles_isl:
  assumes ne: "\<not> empty_df (heap w a)"
    and t: "\<And>price col. getcol (heap w a) ''price'' = Inr price \<Longrightarrow>
              length col = length price \<Longrightarrow> isl (titles (setcol (heap w a) ''price'' col))"
  shows "fst (update_plot w (Some a)) \<noteq> None"
proof (cases rule: update_plot_cases[of "Some a" w])
  case no_data with ne show ?thesis by simp
next
  case (no_price a' e) then show ?thesis by (simp add: update_plot_no_price)
next
  case (bad_price a' price e) then show ?thesis by (simp add: update_plot_bad_price)
next
  case (rendered a' price ps)
  have "length (map FloatV ps) = length price"
    using traverse_length[of as_float price ps] rendered(4) by (simp add: astype_float_def)
  from t[OF _ this] rendered show ?thesis
    by (simp add: update_plot_render[OF rendered(2-4)] render_titles_isl)
qed

lemma update_plot_titles_fail:
  assumes ne: "\<not> empty_df (heap w a)" and pn: "price_numeric (heap w a)"
    and t: "\<And>price col. getcol (heap w a) ''price'' = Inr price \<Longrightarrow>
              length col = length price \<Longrightarrow> titles (setcol (heap w a) ''price'' col) = Inl e"
  shows "fst (update_plot w (Some a)) = Some e"
proof -
  from pn obtain price ps where p: "getcol (heap w a) ''price'' = Inr price"
    "astype_float price = Inr ps" unfolding price_numeric_conv by blast
  have "length (map FloatV ps) = length price"
    using traverse_length[of as_float price ps] p(2) by (simp add: astype_float_def)
  from t[OF p(1) this] show ?thesis
    by (simp add: update_plot_render[OF ne p] render_titles_fail)
qed































section \<open>The claims\<close>




text \<open>
  Claim C5. When \<^verbatim>\<open>update_plot\<close> is given \<^verbatim>\<open>None\<close> or an empty frame it raises
  nothing, leaves \<^verbatim>\<open>current_data\<close>, \<^verbatim>\<open>show_forecast\<close> and every frame as they were,
  and leaves on the cleared axes only the centred message that no data was found,
  flushed by one \<^verbatim>\<open>canvas.draw()\<close>.
\<close>

theorem update_plot_without_data:
  assumes "data = None \<or> empty_df (heap w (the data))"
  shows "fst (update_plot w data) = None \<and>
         current_data (snd (update_plot w data)) = current_data w \<and>
         show_forecast (snd (update_plot w data)) = show_forecast w \<and>
         heap (snd (update_plot w data)) = heap w \<and>
         lines (surf (snd (update_plot w data))) = [] \<and>
         texts (surf (snd (update_plot w data))) = [(no_data_message, Cycle)] \<and>
         draws (surf (snd (update_plot w data))) = Suc (draws (surf w))"
  by (simp add: update_plot_no_data_eq[OF assms] canvas_draw_def ax_text_def ax_clear_def)

text \<open>
  The statement for \<^verbatim>\<open>None\<close> on a new manager, and for an empty frame after a frame
  has been rendered: the reference to the rendered frame is kept.
\<close>

theorem update_plot_without_data_witness:
  "fst (update_plot (init (no_frames(1 := plain_frame))) None) = None \<and>
   current_data (snd (update_plot (init (no_frames(1 := plain_frame))) None)) = None \<and>
   show_forecast (snd (update_plot (init (no_frames(1 := plain_frame))) None)) = False \<and>
   texts (surf (snd (update_plot (init (no_frames(1 := plain_frame))) None))) =
     [(no_data_message, Cycle)] \<and>
   fst (update_plot (snd (update_plot (init (no_frames(1 := plain_frame))) (Some 1))) (Some 0))
     = None \<and>
   current_data
     (snd (update_plot (snd (update_plot (init (no_frames(1 := plain_frame))) (Some 1))) (Some 0)))
     = Some 1 \<and>
   texts (surf
     (snd (update_plot (snd (update_plot (init (no_frames(1 := plain_frame))) (Some 1))) (Some 0))))
     = [(no_data_message, Cycle)]"
proof -
  let ?w0 = "init (no_frames(1 := plain_frame))"
  let ?w1 = "snd (update_plot ?w0 (Some 1))"
  have e: "empty_df (heap ?w1 (the (Some 0)))"
    by code_simp
  have c: "current_data ?w1 = Some 1"
    by code_simp
  show ?thesis
    using update_plot_without_data[of None ?w0] update_plot_without_data[OF disjI2[OF e]] c
    by (simp add: init_def)
qed







text \<open>
  Claim C4. \<^verbatim>\<open>toggle_trend_line\<close> always flips \<^verbatim>\<open>show_forecast\<close>, also when the
  re-rendering raises. While \<^verbatim>\<open>current_data\<close> is unset it does nothing else: the
  surface is untouched. Once \<^verbatim>\<open>current_data\<close> is set it is \<^verbatim>\<open>update_plot\<close> of that
  frame under the flipped flag. \<^verbatim>\<open>current_data\<close> is unset on a new manager, and no
  operation other than \<^verbatim>\<open>update_plot\<close> with data assigns it.
\<close>

theorem toggle_trend_line_flips:
  "show_forecast (snd (toggle_trend_line w)) = (\<not> show_forecast w) \<and>
   (current_data w = None \<longrightarrow>
      toggle_trend_line w = (None, w\<lparr>show_forecast := \<not> show_forecast w\<rparr>)) \<and>
   (\<forall>a. current_data w = Some a \<longrightarrow>
      toggle_trend_line w = update_plot (w\<lparr>show_forecast := \<not> show_forecast w\<rparr>) (Some a)) \<and>
   current_data (init h) = None \<and>
   current_data (snd (setup_initial_plot w)) = current_data w \<and>
   current_data (snd (show_error w message)) = current_data w \<and>
   current_data (snd (clear_plot w)) = current_data w \<and>
   (current_data w = None \<longrightarrow> current_data (snd (update_plot w None)) = None)"
  by (auto simp: toggle_trend_line_def Let_def update_plot_show_forecast init_def
                 setup_initial_plot_def show_error_def clear_plot_def update_plot_no_data_eq
           split: option.splits)

text \<open>The statement before any frame was rendered, and after one was.\<close>

theorem toggle_trend_line_flips_witness:
  "toggle_trend_line (init (no_frames(1 := plain_frame))) =
     (None, (init (no_frames(1 := plain_frame)))\<lparr>show_forecast := True\<rparr>) \<and>
   surf (snd (toggle_trend_line (init (no_frames(1 := plain_frame))))) = fresh_surface \<and>
   toggle_trend_line (snd (update_plot (init (no_frames(1 := plain_frame))) (Some 1))) =
     update_plot ((snd (update_plot (init (no_frames(1 := plain_frame))) (Some 1)))
                    \<lparr>show_forecast := True\<rparr>) (Some 1) \<and>
   show_forecast
     (snd (toggle_trend_line (snd (update_plot (init (no_frames(1 := plain_frame))) (Some 1)))))"
proof -
  let ?w0 = "init (no_frames(1 := plain_frame))"
  let ?w1 = "snd (update_plot ?w0 (Some 1))"
  have n: "current_data ?w0 = None" and f0: "(\<not> show_forecast ?w0) = True"
    and s0: "surf ?w0 = fresh_surface"
    by (simp_all add: init_def)
  have c: "current_data ?w1 = Some 1" by code_simp
  have f1: "(\<not> show_forecast ?w1) = True" by code_simp
  from toggle_trend_line_flips[of ?w0] n
  have t0: "toggle_trend_line ?w0 = (None, ?w0\<lparr>show_forecast := \<not> show_forecast ?w0\<rparr>)"
    by blast
  from toggle_trend_line_flips[of ?w1] c
  have t1: "toggle_trend_line ?w1 =
              update_plot (?w1\<lparr>show_forecast := \<not> show_forecast ?w1\<rparr>) (Some 1)"
    and g1: "show_forecast (snd (toggle_trend_line ?w1)) = (\<not> show_forecast ?w1)"
    by blast+
  have 1: "toggle_trend_line ?w0 = (None, ?w0\<lparr>show_forecast := True\<rparr>)"
    using t0 unfolding f0 .
  have 2: "surf (snd (toggle_trend_line ?w0)) = fresh_surface"
    unfolding 1 using s0 by simp
  have 3: "toggle_trend_line ?w1 = update_plot (?w1\<lparr>show_forecast := True\<rparr>) (Some 1)"
    using t1 unfolding f1 .
  have 4: "show_forecast (snd (toggle_trend_line ?w1))"
    using g1 unfolding f1 by simp
  from 1 2 3 4 show ?thesis by (intro conjI)
qed

text \<open>
  Claim C8. For a frame that is not empty, \<^verbatim>\<open>update_plot\<close> keeps the address of the
  caller's frame in \<^verbatim>\<open>current_data\<close>; when the price column converts, the frame at
  that address is the caller's frame with the price column overwritten by the converted
  values; and whatever frame is later found at that address is the one that
  \<^verbatim>\<open>toggle_trend_line\<close> renders.
\<close>

theorem update_plot_writes_through:
  assumes "\<not> empty_df (heap w a)"
  shows "current_data (snd (update_plot w (Some a))) = Some a \<and>
         (\<forall>price ps. getcol (heap w a) ''price'' = Inr price \<longrightarrow> astype_float price = Inr ps \<longrightarrow>
            heap (snd (update_plot w (Some a))) =
              (heap w)(a := setcol (heap w a) ''price'' (map FloatV ps)) \<and>
            getcol (heap (snd (update_plot w (Some a))) a) ''price'' = Inr (map FloatV ps)) \<and>
         (\<forall>df'. toggle_trend_line
                  ((snd (update_plot w (Some a)))
                     \<lparr>heap := (heap (snd (update_plot w (Some a))))(a := df')\<rparr>) =
                update_plot
                  ((snd (update_plot w (Some a)))
                     \<lparr>heap := (heap (snd (update_plot w (Some a))))(a := df'),
                       show_forecast := \<not> show_forecast w\<rparr>) (Some a))"
proof (intro conjI allI impI)
  show c: "current_data (snd (update_plot w (Some a))) = Some a"
    by (rule update_plot_current_data[OF assms])
  show "toggle_trend_line
          ((snd (update_plot w (Some a)))\<lparr>heap := (heap (snd (update_plot w (Some a))))(a := df')\<rparr>) =
        update_plot
          ((snd (update_plot w (Some a)))
             \<lparr>heap := (heap (snd (update_plot w (Some a))))(a := df'),
               show_forecast := \<not> show_forecast w\<rparr>) (Some a)" for df'
    by (simp add: toggle_trend_line_def Let_def c update_plot_show_forecast)
next
  fix price ps
  assume p: "getcol (heap w a) ''price'' = Inr price" "astype_float price = Inr ps"
  show "heap (snd (update_plot w (Some a))) =
          (heap w)(a := setcol (heap w a) ''price'' (map FloatV ps))"
    by (rule update_plot_heap[OF assms p])
  then show "getcol (heap (snd (update_plot w (Some a))) a) ''price'' = Inr (map FloatV ps)"
    by (simp add: getcol_setcol_same)
qed

text \<open>
  The statement on a frame of integer prices, which the call turns into floats, and with
  the frame at the address replaced afterwards.
\<close>

theorem update_plot_writes_through_witness:
  "current_data (snd (update_plot (init (no_frames(1 := plain_frame))) (Some 1))) = Some 1 \<and>
   getcol plain_frame ''price'' = Inr [IntV 100, IntV 110] \<and>
   getcol (heap (snd (update_plot (init (no_frames(1 := plain_frame))) (Some 1))) 1) ''price'' =
     Inr [FloatV 100, FloatV 110] \<and>
   toggle_trend_line
     ((snd (update_plot (init (no_frames(1 := plain_frame))) (Some 1)))
        \<lparr>heap := (heap (snd (update_plot (init (no_frames(1 := plain_frame))) (Some 1))))
                  (1 := states_frame)\<rparr>) =
   update_plot
     ((snd (update_plot (init (no_frames(1 := plain_frame))) (Some 1)))
        \<lparr>heap := (heap (snd (update_plot (init (no_frames(1 := plain_frame))) (Some 1))))
                  (1 := states_frame),
          show_forecast := True\<rparr>) (Some 1)"
proof -
  let ?w = "init (no_frames(1 := plain_frame))"
  let ?w1 = "snd (update_plot ?w (Some 1))"
  have h: "heap ?w 1 = plain_frame" and f: "(\<not> show_forecast ?w) = True"
    by (simp_all add: init_def)
  have 1: "\<not> empty_df (heap ?w 1)" unfolding h by code_simp
  have 2: "getcol plain_frame ''price'' = Inr [IntV 100, IntV 110]" by code_simp
  have p2: "getcol (heap ?w 1) ''price'' = Inr [IntV 100, IntV 110]"
    unfolding h by (rule 2)
  have 3: "astype_float [IntV 100, IntV 110] = Inr [100, 110]" by code_simp
  from update_plot_writes_through[OF 1]
  have A: "current_data ?w1 = Some 1"
    and B: "\<And>price ps. getcol (heap ?w 1) ''price'' = Inr price \<Longrightarrow>
              astype_float price = Inr ps \<Longrightarrow>
              getcol (heap ?w1 1) ''price'' = Inr (map FloatV ps)"
    and C: "\<And>df'. toggle_trend_line (?w1\<lparr>heap := (heap ?w1)(1 := df')\<rparr>) =
              update_plot (?w1\<lparr>heap := (heap ?w1)(1 := df'),
                               show_forecast := \<not> show_forecast ?w\<rparr>) (Some 1)"
    by blast+
  have B': "getcol (heap ?w1 1) ''price'' = Inr [FloatV 100, FloatV 110]"
    using B[OF p2 3] by simp
  from A 2 B' C[of states_frame, unfolded f] show ?thesis
    by (intro conjI)
qed

text \<open>
  Claim C9. For a frame that is not empty and has a \<^verbatim>\<open>city\<close> column but no
  \<^verbatim>\<open>stateabbr\<close> column, \<^verbatim>\<open>location_cols\<close> is empty and \<^verbatim>\<open>update_plot\<close> raises; when
  the frame is well formed and its price column converts, what it raises is the lookup
  failure of \<^verbatim>\<open>stateabbr\<close>. So the call can only succeed on a frame in which the presence
  of \<^verbatim>\<open>city\<close> comes with the presence of \<^verbatim>\<open>stateabbr\<close>.
\<close>

theorem update_plot_city_without_stateabbr:
  assumes "\<not> empty_df (heap w a)"
    and "''city'' \<in> set (columns (heap w a))"
    and "''stateabbr'' \<notin> set (columns (heap w a))"
  shows "location_cols (heap w a) = [] \<and>
         fst (update_plot w (Some a)) \<noteq> None \<and>
         (wf_frame (heap w a) \<longrightarrow> price_numeric (heap w a) \<longrightarrow>
            fst (update_plot w (Some a)) = Some (KeyError ''stateabbr''))"
proof (intro conjI impI)
  show "location_cols (heap w a) = []"
    using assms(3) by (simp add: location_cols_def)
  show "fst (update_plot w (Some a)) \<noteq> None"
  proof (rule update_plot_titles_isl[OF assms(1)])
    fix price col :: "cell list"
    assume p: "getcol (heap w a) ''price'' = Inr price"
    then have "''price'' \<in> set (columns (heap w a))" using getcol_Inr_iff by blast
    then show "isl (titles (setcol (heap w a) ''price'' col))"
      using assms(2,3) by (intro titles_city_without_state) (simp_all add: columns_setcol)
  qed
  assume wf: "wf_frame (heap w a)" and pn: "price_numeric (heap w a)"
  show "fst (update_plot w (Some a)) = Some (KeyError ''stateabbr'')"
  proof (rule update_plot_titles_fail[OF assms(1) pn])
    fix price col :: "cell list"
    assume p: "getcol (heap w a) ''price'' = Inr price" and l: "length col = length price"
    then have c: "''price'' \<in> set (columns (heap w a))" using getcol_Inr_iff by blast
    show "titles (setcol (heap w a) ''price'' col) = Inl (KeyError ''stateabbr'')"
      using assms c wf_frame_setcol[OF wf p l] empty_df_setcol[OF p l]
      by (intro titles_city_without_state_wf) (simp_all add: columns_setcol)
  qed
qed

theorem update_plot_city_without_stateabbr_witness:
  "location_cols city_only_frame = [] \<and>
   fst (update_plot (init (no_frames(1 := city_only_frame))) (Some 1)) =
     Some (KeyError ''stateabbr'')"
proof -
  let ?w = "init (no_frames(1 := city_only_frame))"
  have h: "heap ?w 1 = city_only_frame" by (simp add: init_def)
  have 1: "\<not> empty_df (heap ?w 1)" unfolding h by code_simp
  have 2: "''city'' \<in> set (columns (heap ?w 1))" unfolding h by code_simp
  have 3: "''stateabbr'' \<notin> set (columns (heap ?w 1))" unfolding h by code_simp
  have 4: "wf_frame (heap ?w 1)" unfolding h by code_simp
  have 5: "price_numeric (heap ?w 1)" unfolding h by code_simp
  from update_plot_city_without_stateabbr[OF 1 2 3] 4 5 show ?thesis
    unfolding h by simp
qed

text \<open>
  Claim C10. For a frame that is not empty and has no \<^verbatim>\<open>included_zipcodes\<close> column,
  \<^verbatim>\<open>update_plot\<close> raises; when the frame is well formed, its price column converts, and
  \<^verbatim>\<open>stateabbr\<close> is present if \<^verbatim>\<open>city\<close> is, what it raises is the lookup failure of
  \<^verbatim>\<open>included_zipcodes\<close>, whichever of the three titles applies.
\<close>

theorem update_plot_requires_included_zipcodes:
  assumes "\<not> empty_df (heap w a)"
    and "''included_zipcodes'' \<notin> set (columns (heap w a))"
  shows "fst (update_plot w (Some a)) \<noteq> None \<and>
         (wf_frame (heap w a) \<longrightarrow> price_numeric (heap w a) \<longrightarrow>
          (''city'' \<in> set (columns (heap w a)) \<longrightarrow> ''stateabbr'' \<in> set (columns (heap w a))) \<longrightarrow>
            fst (update_plot w (Some a)) = Some (KeyError ''included_zipcodes''))"
proof (intro conjI impI)
  show "fst (update_plot w (Some a)) \<noteq> None"
  proof (rule update_plot_titles_isl[OF assms(1)])
    fix price col :: "cell list"
    assume p: "getcol (heap w a) ''price'' = Inr price"
    then have "''price'' \<in> set (columns (heap w a))" using getcol_Inr_iff by blast
    then show "isl (titles (setcol (heap w a) ''price'' col))"
      using assms(2) by (intro titles_without_count) (simp_all add: columns_setcol)
  qed
  assume wf: "wf_frame (heap w a)" and pn: "price_numeric (heap w a)"
    and cs: "''city'' \<in> set (columns (heap w a)) \<longrightarrow> ''stateabbr'' \<in> set (columns (heap w a))"
  show "fst (update_plot w (Some a)) = Some (KeyError ''included_zipcodes'')"
  proof (rule update_plot_titles_fail[OF assms(1) pn])
    fix price col :: "cell list"
    assume p: "getcol (heap w a) ''price'' = Inr price" and l: "length col = length price"
    then have c: "''price'' \<in> set (columns (heap w a))" using getcol_Inr_iff by blast
    show "titles (setcol (heap w a) ''price'' col) = Inl (KeyError ''included_zipcodes'')"
      using assms c cs wf_frame_setcol[OF wf p l] empty_df_setcol[OF p l]
      by (intro titles_without_count_wf) (simp_all add: columns_setcol)
  qed
qed

text \<open>The statement on a frame with no location column at all.\<close>

theorem update_plot_requires_included_zipcodes_witness:
  "fst (update_plot (init (no_frames(1 := uncounted_frame))) (Some 1)) =
     Some (KeyError ''included_zipcodes'')"
proof -
  let ?w = "init (no_frames(1 := uncounted_frame))"
  have h: "heap ?w 1 = uncounted_frame" by (simp add: init_def)
  have 1: "\<not> empty_df (heap ?w 1)" unfolding h by code_simp
  have 2: "''included_zipcodes'' \<notin> set (columns (heap ?w 1))" unfolding h by code_simp
  have 3: "wf_frame (heap ?w 1)" unfolding h by code_simp
  have 4: "price_numeric (heap ?w 1)" unfolding h by code_simp
  have 5: "''city'' \<notin> set (columns (heap ?w 1))" unfolding h by code_simp
  from update_plot_requires_included_zipcodes[OF 1 2] 3 4 5 show ?thesis
    by simp
qed





end
